theory Spec2Isabelle
  imports Main "HOL-Library.Char_ord" "HOL-Library.List_Lexorder"
begin

section \<open>Data model of sample.go\<close>

text \<open>
  The program is the second variant in \<^verbatim>\<open>src/sample.go\<close> (the one with the exit codes,
  \<^verbatim>\<open>executeWithStatus\<close> and \<^verbatim>\<open>getUniqueResourceGroupName\<close>). A Go \<^verbatim>\<open>error\<close> is
  modelled by its message; \<^verbatim>\<open>nil\<close> is \<open>None\<close>. An \<^verbatim>\<open>autorest.Response\<close> embeds a
  \<^verbatim>\<open>*http.Response\<close>, which \<^verbatim>\<open>getFailureStatus\<close> tests against \<^verbatim>\<open>nil\<close>: it is an
  option, and reading \<^verbatim>\<open>StatusCode\<close> through a nil pointer panics.
\<close>

type_synonym error = string

record http_Response =
  StatusCode :: int
  Status :: string

type_synonym autorest_Response = "http_Response option"

definition StatusOK :: int where
  "StatusOK = 200"

text \<open>Exit status codes (the \<^verbatim>\<open>iota\<close> block).\<close>

definition ExitSuccess :: int where
  "ExitSuccess = 0"

definition ExitAuthenticationFailure :: int where
  "ExitAuthenticationFailure = 1"

definition ExitResourceGroupCreationFailure :: int where
  "ExitResourceGroupCreationFailure = 2"

definition ExitVirtualNetworkCreationFailure :: int where
  "ExitVirtualNetworkCreationFailure = 3"

definition ExitNetworkSecuritryGroupCreationFailure :: int where
  "ExitNetworkSecuritryGroupCreationFailure = 4"

definition ExitSecurityRuleCreationFailure :: int where
  "ExitSecurityRuleCreationFailure = 5"

definition ExitSubnetCreationFailure :: int where
  "ExitSubnetCreationFailure = 6"

text \<open>
  The remote calls the program issues, by client method and the names passed, and the
  other effects that block the run. The payloads (locations, address prefixes, rule
  properties) are constants of the source and are not part of the descriptor.
\<close>

datatype call =
    GroupsList
  | GroupsCreateOrUpdate string
  | GroupsDelete string
  | VirtualNetworksCreateOrUpdate string string
  | SecurityGroupsCreateOrUpdate string string
  | SecurityGroupsGet string string
  | SubnetsCreateOrUpdate string string string
  | SecurityRulesCreateOrUpdate string string string

datatype effect = Remote call | Scanln | Sleep nat

text \<open>
  The process state: the effects issued so far, what was written to standard output and
  standard error, and the variable \<^verbatim>\<open>exitStatus\<close> of \<^verbatim>\<open>main\<close>, which the deferred
  \<^verbatim>\<open>os.Exit\<close> reads.
\<close>

record state =
  trace :: "effect list"
  stdout :: string
  stderr :: string
  exitStatus :: int

text \<open>
  The resource-management API is an opaque collaborator: what each client method answers,
  as a function of the names it is called with. The listing answers a response and the
  group names (\<^verbatim>\<open>*groupList.Value\<close>, each \<^verbatim>\<open>*rg.Name\<close>); \<^verbatim>\<open>Get\<close> answers the
  security group, of which the program reads \<^verbatim>\<open>*Name\<close>.
\<close>

record GroupListResult =
  Response :: autorest_Response
  Value :: "string list"

record SecurityGroup =
  Name :: string

record remote =
  groups_List :: "GroupListResult \<times> error option"
  groups_CreateOrUpdate :: "string \<Rightarrow> error option"
  groups_Delete :: "string \<Rightarrow> autorest_Response \<times> error option"
  virtualNetworks_CreateOrUpdate :: "string \<Rightarrow> string \<Rightarrow> autorest_Response \<times> error option"
  securityGroups_CreateOrUpdate :: "string \<Rightarrow> string \<Rightarrow> autorest_Response \<times> error option"
  securityGroups_Get :: "string \<Rightarrow> string \<Rightarrow> SecurityGroup \<times> error option"
  subnets_CreateOrUpdate :: "string \<Rightarrow> string \<Rightarrow> string \<Rightarrow> autorest_Response \<times> error option"
  securityRules_CreateOrUpdate :: "string \<Rightarrow> string \<Rightarrow> string \<Rightarrow> autorest_Response \<times> error option"

text \<open>
  The package-level variables. \<^verbatim>\<open>output\<close> is an \<^verbatim>\<open>io.Writer\<close>: nil until \<^verbatim>\<open>init\<close>
  assigns \<^verbatim>\<open>ioutil.Discard\<close> or \<^verbatim>\<open>os.Stdout\<close>. The token is opaque.
\<close>

datatype writer = Discard | Stdout

type_synonym ServicePrincipalToken = string

record globals =
  subscriptionID :: string
  clientID :: string
  clientSecret :: string
  tenantID :: string
  token :: "ServicePrincipalToken option"
  "output" :: "writer option"
  pause :: bool
  delay :: nat
  "help" :: bool

section \<open>Effects, panics and sequencing\<close>

text \<open>
  A statement of the program takes the state and returns the new state with either a
  value or a panic (a nil dereference); a panic skips what follows.
\<close>

datatype 'a result = Panic | Ok 'a

type_synonym 'a prog = "state \<Rightarrow> 'a result \<times> state"

definition ret :: "'a \<Rightarrow> 'a prog" where
  "ret x s = (Ok x, s)"

definition panic :: "'a prog" where
  "panic s = (Panic, s)"

definition andThen :: "'a prog \<Rightarrow> ('a \<Rightarrow> 'b prog) \<Rightarrow> 'b prog" where
  "andThen m f s = (case m s of (Panic, s') \<Rightarrow> (Panic, s') | (Ok x, s') \<Rightarrow> f x s')"

definition invoke :: "call \<Rightarrow> unit prog" where
  "invoke c s = (Ok (), s\<lparr>trace := trace s @ [Remote c]\<rparr>)"

definition block :: "effect \<Rightarrow> unit prog" where
  "block e s = (Ok (), s\<lparr>trace := trace s @ [e]\<rparr>)"

definition remote_call :: "call \<Rightarrow> 'a \<Rightarrow> 'a prog" where
  "remote_call c answer = andThen (invoke c) (\<lambda>_. ret answer)"

definition Fprint :: "writer option \<Rightarrow> string \<Rightarrow> unit prog" where
  "Fprint w text s =
     (case w of
        None \<Rightarrow> (Panic, s)
      | Some Discard \<Rightarrow> (Ok (), s)
      | Some Stdout \<Rightarrow> (Ok (), s\<lparr>stdout := stdout s @ text\<rparr>))"

definition Fprint_Stderr :: "string \<Rightarrow> unit prog" where
  "Fprint_Stderr text s = (Ok (), s\<lparr>stderr := stderr s @ text\<rparr>)"

definition setExitStatus :: "int \<Rightarrow> unit prog" where
  "setExitStatus c s = (Ok (), s\<lparr>exitStatus := c\<rparr>)"

section \<open>Formatting\<close>

definition newline :: string where
  "newline = [CHR 0x0A]"

definition tab :: string where
  "tab = [CHR 0x09]"

definition quote :: string where
  "quote = [CHR 0x27]"

definition dquote :: string where
  "dquote = [CHR 0x22]"

definition digit_char :: "nat \<Rightarrow> char" where
  "digit_char d = char_of (48 + d)"

text \<open>The verb \<^verbatim>\<open>%d\<close>: decimal digits, most significant first, no leading zero.\<close>

function string_of_nat :: "nat \<Rightarrow> string" where
  "string_of_nat n =
     (if n < 10 then [digit_char n]
      else string_of_nat (n div 10) @ [digit_char (n mod 10)])"
  by pat_completeness auto
termination
  by (relation "measure (\<lambda>n. n)") auto

definition string_of_int :: "int \<Rightarrow> string" where
  "string_of_int i = (if i < 0 then ''-'' @ string_of_nat (nat (- i)) else string_of_nat (nat i))"

section \<open>getUniqueResourceGroupName\<close>

definition resourceGroupNamePrefix :: string where
  "resourceGroupNamePrefix = ''networkSecurityGroupSample''"

definition HasPrefix :: "string \<Rightarrow> string \<Rightarrow> bool" where
  "HasPrefix s p = (length p \<le> length s \<and> take (length p) s = p)"

text \<open>The loop over \<^verbatim>\<open>*groupList.Value\<close>, on the pair (\<^verbatim>\<open>any\<close>, \<^verbatim>\<open>seen\<close>).\<close>

fun collect_seen :: "string list \<Rightarrow> bool \<times> string list \<Rightarrow> bool \<times> string list" where
  "collect_seen [] acc = acc"
| "collect_seen (name # rest) (any, seen) =
     (if HasPrefix name resourceGroupNamePrefix
      then collect_seen rest (True, seen @ [name])
      else collect_seen rest (any, seen))"

text \<open>
  The loop \<^verbatim>\<open>for i := 0; i < count; i++\<close> with \<^verbatim>\<open>count := len(seen) - 1\<close>, from
  index \<open>i\<close> on: the candidate it returns, or \<open>None\<close> when it runs to the end. The guard
  keeps \<open>i + 1\<close> below the length of \<open>seen\<close>.
\<close>

function scan_candidates :: "string list \<Rightarrow> nat \<Rightarrow> string option" where
  "scan_candidates seen i =
     (if i < length seen - 1
      then (let candidate = resourceGroupNamePrefix @ string_of_nat i
            in if seen ! (i + 1) \<noteq> candidate then Some candidate
               else scan_candidates seen (i + 1))
      else None)"
  by pat_completeness auto
termination
  by (relation "measure (\<lambda>(seen, i). length seen - 1 - i)") auto

text \<open>
  Lines 666 to 685: the name chosen from the listed names, once the listing answered
  with \<^verbatim>\<open>http.StatusOK\<close>. \<^verbatim>\<open>sort.Strings\<close> orders byte-wise, which is the order of
  \<^typ>\<open>string\<close> here.
\<close>

definition uniqueNameAmong :: "string list \<Rightarrow> string" where
  "uniqueNameAmong names =
     (let (any, unsorted) = collect_seen names (False, []);
          seen = sort unsorted
      in if any \<and> seen ! 0 = resourceGroupNamePrefix
         then (case scan_candidates seen 0 of
                 Some candidate \<Rightarrow> candidate
               | None \<Rightarrow> resourceGroupNamePrefix @ string_of_nat (length seen - 1))
         else resourceGroupNamePrefix)"

definition getUniqueResourceGroupName :: "remote \<Rightarrow> (string \<times> error option) prog" where
  "getUniqueResourceGroupName r =
     andThen (remote_call GroupsList (groups_List r)) (\<lambda>(groupList, err).
       if err \<noteq> None then ret ('''', err)
       else (case Response groupList of
               None \<Rightarrow> panic
             | Some h \<Rightarrow>
                 if StatusOK = StatusCode h then ret (uniqueNameAmong (Value groupList), None)
                 else ret ('''', Some (''Bad response: '' @ string_of_int (StatusCode h)))))"

section \<open>executeWithStatus\<close>

definition getFailureStatus :: "error option \<Rightarrow> autorest_Response \<Rightarrow> string" where
  "getFailureStatus err response =
     (let retval0 = '''';
          retval1 = (case response of
                       None \<Rightarrow> retval0
                     | Some h \<Rightarrow> retval0 @ tab @ ''Status Code: '' @ string_of_int (StatusCode h)
                                  @ newline @ tab @ ''Status: '' @ Status h @ newline);
          retval2 = (case err of
                       None \<Rightarrow> retval1
                     | Some e \<Rightarrow> retval1 @ tab @ ''Error: '' @ e @ newline)
      in if retval2 = '''' then ''An unknown error occurred.'' @ newline else retval2)"

definition reportFailed :: "globals \<Rightarrow> autorest_Response \<times> error option \<Rightarrow> (autorest_Response \<times> error option) prog" where
  "reportFailed g outcome =
     andThen (Fprint (output g) (''FAILED'' @ newline)) (\<lambda>_.
     andThen (Fprint_Stderr (getFailureStatus (snd outcome) (fst outcome))) (\<lambda>_.
     ret outcome))"

definition reportSuccess :: "globals \<Rightarrow> autorest_Response \<times> error option \<Rightarrow> (autorest_Response \<times> error option) prog" where
  "reportSuccess g outcome =
     andThen (Fprint (output g) (''SUCCESS'' @ newline)) (\<lambda>_. ret outcome)"

definition executeWithStatus ::
  "globals \<Rightarrow> (autorest_Response \<times> error option) prog \<Rightarrow> string \<Rightarrow> (autorest_Response \<times> error option) prog" where
  "executeWithStatus g operation message =
     andThen (Fprint (output g) (message @ ''...'')) (\<lambda>_.
     andThen operation (\<lambda>(response, err).
       if err = None
       then (case response of
               None \<Rightarrow> panic
             | Some h \<Rightarrow>
                 if StatusOK = StatusCode h then reportSuccess g (response, err)
                 else reportFailed g (response, err))
       else reportFailed g (response, err)))"

section \<open>The stages\<close>

definition deleteResourceGroup :: "globals \<Rightarrow> remote \<Rightarrow> string \<Rightarrow> (error option) prog" where
  "deleteResourceGroup g r name =
     andThen (executeWithStatus g (remote_call (GroupsDelete name) (groups_Delete r name))
                (''Deleting Resource Group '' @ quote @ name @ quote)) (\<lambda>(_, err).
     ret err)"

definition createResourceGroup :: "globals \<Rightarrow> remote \<Rightarrow> (string \<times> error option) prog" where
  "createResourceGroup g r =
     andThen (getUniqueResourceGroupName r) (\<lambda>(resourceGroupName, err).
       case err of
         Some e \<Rightarrow> andThen (Fprint_Stderr e) (\<lambda>_. ret (resourceGroupName, err))
       | None \<Rightarrow>
           andThen (Fprint (output g)
                      (''Creating Resource Group '' @ quote @ resourceGroupName @ quote @ ''...'')) (\<lambda>_.
           andThen (remote_call (GroupsCreateOrUpdate resourceGroupName)
                      (groups_CreateOrUpdate r resourceGroupName)) (\<lambda>err.
             case err of
               Some e \<Rightarrow>
                 andThen (Fprint (output g) (''FAILED'' @ newline)) (\<lambda>_.
                 andThen (Fprint_Stderr (tab @ ''Error: '' @ e @ newline)) (\<lambda>_.
                 ret ('''', err)))
             | None \<Rightarrow>
                 andThen (Fprint (output g) (''SUCCESS'' @ newline)) (\<lambda>_.
                 ret (resourceGroupName, err)))))"

definition networkName :: string where
  "networkName = ''sampleVirtualNetwork''"

definition createVirtualNetwork :: "globals \<Rightarrow> remote \<Rightarrow> string \<Rightarrow> (string \<times> error option) prog" where
  "createVirtualNetwork g r resourceGroupName =
     andThen (executeWithStatus g
                (remote_call (VirtualNetworksCreateOrUpdate resourceGroupName networkName)
                   (virtualNetworks_CreateOrUpdate r resourceGroupName networkName))
                (''Creating Virtual Network '' @ quote @ networkName @ quote)) (\<lambda>(_, err).
     ret (networkName, err))"

text \<open>
  \<^verbatim>\<open>createNetworkSecurityGroup\<close> drops the error of the creation: \<^verbatim>\<open>err\<close> is assigned
  again by \<^verbatim>\<open>client.Get\<close>, whose result and error it returns.
\<close>

definition createNetworkSecurityGroup ::
  "globals \<Rightarrow> remote \<Rightarrow> string \<Rightarrow> string \<Rightarrow> (SecurityGroup \<times> error option) prog" where
  "createNetworkSecurityGroup g r resourceGroupName name =
     andThen (executeWithStatus g
                (remote_call (SecurityGroupsCreateOrUpdate resourceGroupName name)
                   (securityGroups_CreateOrUpdate r resourceGroupName name))
                (''Creating Network Security Group '' @ quote @ name @ quote)) (\<lambda>_.
     remote_call (SecurityGroupsGet resourceGroupName name)
       (securityGroups_Get r resourceGroupName name))"

definition createSubnet :: "globals \<Rightarrow> remote \<Rightarrow> string \<Rightarrow> string \<Rightarrow> string \<Rightarrow> (autorest_Response \<times> error option) prog" where
  "createSubnet g r resourceGroupName vNetName subnetName =
     executeWithStatus g
       (remote_call (SubnetsCreateOrUpdate resourceGroupName vNetName subnetName)
          (subnets_CreateOrUpdate r resourceGroupName vNetName subnetName))
       (''Creating Subnet '' @ quote @ subnetName @ quote)"

definition createSecurityRule ::
  "globals \<Rightarrow> remote \<Rightarrow> string \<Rightarrow> string \<Rightarrow> string \<Rightarrow> string \<Rightarrow> (autorest_Response \<times> error option) prog" where
  "createSecurityRule g r resourceGroupName nsgName ruleName message =
     executeWithStatus g
       (remote_call (SecurityRulesCreateOrUpdate resourceGroupName nsgName ruleName)
          (securityRules_CreateOrUpdate r resourceGroupName nsgName ruleName))
       message"

section \<open>main\<close>

text \<open>Lines 489 to 497: the wait before the resource group is removed.\<close>

definition waitBeforeCleanup :: "globals \<Rightarrow> unit prog" where
  "waitBeforeCleanup g =
     (if pause g
      then andThen (Fprint (Some Stdout) ''Press Enter to continue...'') (\<lambda>_. block Scanln)
      else if delay g > 0
      then andThen (Fprint (output g) (''Delaying '' @ string_of_nat (delay g) @ '' seconds...'')) (\<lambda>_.
           andThen (block (Sleep (delay g))) (\<lambda>_.
           Fprint (output g) (''DONE'' @ newline)))
      else ret ())"

text \<open>
  Lines 389 to 487: the four security rules. Only the first call assigns \<^verbatim>\<open>err\<close>; the
  test after the second rule reads the same variable again.
\<close>

definition createSecurityRules :: "globals \<Rightarrow> remote \<Rightarrow> string \<Rightarrow> SecurityGroup \<Rightarrow> SecurityGroup \<Rightarrow> unit prog" where
  "createSecurityRules g r resourceGroupName frontEndNSG backEndNSG =
     andThen (createSecurityRule g r resourceGroupName (Name frontEndNSG) ''ALLOW-SSH''
                (''Creating Security Rule '' @ quote @ ''Allow SSH'' @ quote)) (\<lambda>(_, err).
     if err \<noteq> None then setExitStatus ExitSecurityRuleCreationFailure
     else
     andThen (createSecurityRule g r resourceGroupName (Name frontEndNSG) ''ALLOW-HTTP''
                (''Creating Security Rule '' @ quote @ ''Allow HTTP'' @ quote)) (\<lambda>_.
     if err \<noteq> None then setExitStatus ExitSecurityRuleCreationFailure
     else
     andThen (createSecurityRule g r resourceGroupName (Name backEndNSG) ''ALLOW-SQL''
                (''Creating Security Rule '' @ dquote @ ''ALLOW-SQL'' @ dquote)) (\<lambda>_.
     andThen (createSecurityRule g r resourceGroupName (Name backEndNSG) ''DENY-OUT''
                (''Creating Security Rule '' @ dquote @ ''DENY-OUT'' @ dquote)) (\<lambda>_.
     waitBeforeCleanup g))))"

text \<open>
  Lines 325 to 497: what \<^verbatim>\<open>main\<close> runs once the deletion of the resource group is
  deferred. A \<^verbatim>\<open>return\<close> ends it with a value, a panic ends it with \<open>Panic\<close>; either way
  the deferred calls run next.
\<close>

definition provision :: "globals \<Rightarrow> remote \<Rightarrow> string \<Rightarrow> unit prog" where
  "provision g r resourceGroupName =
     andThen (createVirtualNetwork g r resourceGroupName) (\<lambda>(vNetName, err).
     if err \<noteq> None then setExitStatus ExitVirtualNetworkCreationFailure
     else
     andThen (createNetworkSecurityGroup g r resourceGroupName ''frontend'') (\<lambda>(frontEndNSG, err).
     if err \<noteq> None then setExitStatus ExitNetworkSecuritryGroupCreationFailure
     else
     andThen (createNetworkSecurityGroup g r resourceGroupName ''backend'') (\<lambda>(backEndNSG, err).
     if err \<noteq> None then setExitStatus ExitNetworkSecuritryGroupCreationFailure
     else
     andThen (createSubnet g r resourceGroupName vNetName ''frontendSubnet'') (\<lambda>(_, err).
     if err \<noteq> None then setExitStatus ExitSubnetCreationFailure
     else
     andThen (createSubnet g r resourceGroupName vNetName ''backendSubnet'') (\<lambda>(_, err).
     if err \<noteq> None then setExitStatus ExitSubnetCreationFailure
     else createSecurityRules g r resourceGroupName frontEndNSG backEndNSG)))))"

text \<open>
  \<^verbatim>\<open>main\<close>, up to the call of \<^verbatim>\<open>os.Exit(exitStatus)\<close> that its first deferred function
  makes: the state it returns is the state at process exit, and \<open>exitStatus\<close> of it the
  exit code. Deferred calls run last-in first-out, on a return and on a panic alike, so
  the deletion (when deferred) runs after \<open>provision\<close> and before the exit.
\<close>

definition main :: "globals \<Rightarrow> remote \<Rightarrow> state \<Rightarrow> state" where
  "main g r s0 =
     (let s = s0\<lparr>exitStatus := ExitSuccess\<rparr>
      in if help g then s
         else if token g = None
         then (snd (Fprint_Stderr (''Fatal Error: Authentication Failed.'' @ newline) s))
                \<lparr>exitStatus := ExitAuthenticationFailure\<rparr>
         else (case createResourceGroup g r s of
                 (Panic, s1) \<Rightarrow> s1
               | (Ok (resourceGroupName, err), s1) \<Rightarrow>
                   if err \<noteq> None then s1\<lparr>exitStatus := ExitResourceGroupCreationFailure\<rparr>
                   else snd (deleteResourceGroup g r resourceGroupName
                               (snd (provision g r resourceGroupName s1)))))"

section \<open>init\<close>

text \<open>
  What \<^verbatim>\<open>init\<close> takes from outside the repository: the environment, the parsed
  command line, and the libraries it calls. \<open>guid_Parse\<close> is \<^verbatim>\<open>guid.Parse\<close> followed by
  \<^verbatim>\<open>Stringf(guid.FormatD)\<close>, \<open>None\<close> when parsing returns an error;
  \<open>NewOAuthConfig\<close> answers an error or a configuration; \<open>NewServicePrincipalToken\<close>
  answers the pointer and the error, and \<^verbatim>\<open>init\<close> assigns the pointer before it tests
  the error. \<open>PrintDefaults\<close> is the text \<^verbatim>\<open>flag.PrintDefaults\<close> writes to standard error.
\<close>

type_synonym OAuthConfig = string

record flags =
  flag_quiet :: bool
  flag_pause :: bool
  flag_delay :: nat
  flag_help :: bool

record externals =
  Getenv :: "string \<Rightarrow> string"
  guid_Parse :: "string \<Rightarrow> string option"
  PrintDefaults :: string
  NewOAuthConfig :: "string \<Rightarrow> error + OAuthConfig"
  NewServicePrincipalToken ::
    "OAuthConfig \<Rightarrow> string \<Rightarrow> string \<Rightarrow> ServicePrincipalToken option \<times> error option"

definition azureEnvVarNameSubscriptionID :: string where
  "azureEnvVarNameSubscriptionID = ''AZURE_SUBSCRIPTION_ID''"

definition azureEnvVarNameClientID :: string where
  "azureEnvVarNameClientID = ''AZURE_CLIENT_ID''"

definition azureEnvVarNameClientSecret :: string where
  "azureEnvVarNameClientSecret = ''AZURE_CLIENT_SECRET''"

definition azureEnvVarNameTenantID :: string where
  "azureEnvVarNameTenantID = ''AZURE_TENANT_ID''"

definition newMissingAzureAuthError :: "string \<Rightarrow> string \<Rightarrow> error" where
  "newMissingAzureAuthError pretty envVarName =
     ''No value was provieded to act as the '' @ pretty @ ''. Set enviroment variable ''
       @ dquote @ envVarName @ dquote"

definition uuidErr :: "string \<Rightarrow> error" where
  "uuidErr envVarName =
     ''argument '' @ quote @ envVarName @ quote @ '' was not of type Uuid as expected''"

text \<open>\<^verbatim>\<open>validateParameters\<close> returns the errors and rewrites the identifiers it parsed.\<close>

definition validateParameters :: "externals \<Rightarrow> globals \<Rightarrow> error list \<times> globals" where
  "validateParameters x g0 =
     (let (errs1, g1) =
            (if tenantID g0 = []
             then ([newMissingAzureAuthError ''Azure Tenant ID'' azureEnvVarNameTenantID], g0)
             else (case guid_Parse x (tenantID g0) of
                     None \<Rightarrow> ([uuidErr azureEnvVarNameTenantID], g0)
                   | Some parsed \<Rightarrow> ([], g0\<lparr>tenantID := parsed\<rparr>)));
          (errs2, g2) =
            (if subscriptionID g1 = []
             then (errs1 @ [newMissingAzureAuthError ''Azure Subscription ID'' azureEnvVarNameSubscriptionID], g1)
             else (case guid_Parse x (subscriptionID g1) of
                     None \<Rightarrow> (errs1 @ [uuidErr azureEnvVarNameSubscriptionID], g1)
                   | Some parsed \<Rightarrow> (errs1, g1\<lparr>subscriptionID := parsed\<rparr>)));
          (errs3, g3) =
            (if clientID g2 = []
             then (errs2 @ [newMissingAzureAuthError ''Azure Client ID'' azureEnvVarNameClientID], g2)
             else (case guid_Parse x (clientID g2) of
                     None \<Rightarrow> (errs2 @ [uuidErr azureEnvVarNameClientID], g2)
                   | Some parsed \<Rightarrow> (errs2, g2\<lparr>clientID := parsed\<rparr>)));
          errs4 =
            (if clientSecret g3 = []
             then errs3 @ [newMissingAzureAuthError ''Azure Client Secret'' azureEnvVarNameClientSecret]
             else errs3)
      in (errs4, g3))"

text \<open>The zero values of the package-level variables, and the state at process start.\<close>

definition initial_globals :: globals where
  "initial_globals =
     \<lparr>subscriptionID = [], clientID = [], clientSecret = [], tenantID = [],
      token = None, output = None, pause = False, delay = 0, help = False\<rparr>"

definition initial_state :: state where
  "initial_state = \<lparr>trace = [], stdout = [], stderr = [], exitStatus = 0\<rparr>"

definition print_errs :: "error list \<Rightarrow> state \<Rightarrow> state" where
  "print_errs errs s =
     s\<lparr>stderr := stderr s @ concat (map (\<lambda>err. ''Invalid argument. Details: '' @ err @ newline) errs)\<rparr>"

definition init :: "externals \<Rightarrow> flags \<Rightarrow> state \<Rightarrow> globals \<times> state" where
  "init x fl s =
     (let g = initial_globals
            \<lparr>subscriptionID := Getenv x azureEnvVarNameSubscriptionID,
             clientID := Getenv x azureEnvVarNameClientID,
             clientSecret := Getenv x azureEnvVarNameClientSecret,
             tenantID := Getenv x azureEnvVarNameTenantID,
             pause := flag_pause fl, delay := flag_delay fl, help := flag_help fl\<rparr>
      in if help g then (g, s\<lparr>stderr := stderr s @ PrintDefaults x\<rparr>)
         else
           (let g = g\<lparr>output := Some (if flag_quiet fl then Discard else Stdout)\<rparr>;
                (errs, g) = validateParameters x g
            in if length errs > 0 then (g, print_errs errs s)
               else (case NewOAuthConfig x (tenantID g) of
                       Inl err \<Rightarrow> (g, s\<lparr>stderr := stderr s @ err\<rparr>)
                     | Inr authConfig \<Rightarrow>
                         (let (tok, err) = NewServicePrincipalToken x authConfig (clientID g) (clientSecret g);
                              g = g\<lparr>token := tok\<rparr>
                          in (case err of
                                Some e \<Rightarrow> (g, s\<lparr>stderr := stderr s @ e\<rparr>)
                              | None \<Rightarrow> (g, s))))))"

text \<open>The process: \<^verbatim>\<open>init\<close>, then \<^verbatim>\<open>main\<close>, from the state at process start.\<close>

definition program :: "externals \<Rightarrow> flags \<Rightarrow> remote \<Rightarrow> state" where
  "program x fl r = (let (g, s) = init x fl initial_state in main g r s)"

text \<open>
  \<^verbatim>\<open>init\<close> calls \<^verbatim>\<open>flag.Parse\<close> (line 511) on the command line of the process. That
  is Go's \<^verbatim>\<open>flag\<close> package on \<^verbatim>\<open>flag.CommandLine\<close>, which handles errors by exiting:
  on a command line it rejects, \<^verbatim>\<open>flag.Parse\<close> writes its message to standard error and
  ends the process itself, with the status it chooses (2 for an invalid flag), before
  \<^verbatim>\<open>init\<close> reads \<^verbatim>\<open>help\<close> or validates the credentials and before \<^verbatim>\<open>main\<close> runs. A
  command line is thus either rejected, with what \<^verbatim>\<open>flag.Parse\<close> writes and the status
  it exits with, or accepted, with the values of the four flags; \<open>init\<close> and \<open>program\<close>
  above are the run on an accepted command line.
\<close>

datatype command_line = Rejected string int | Accepted flags

definition process :: "externals \<Rightarrow> command_line \<Rightarrow> remote \<Rightarrow> state" where
  "process x cl r =
     (case cl of
        Rejected message status \<Rightarrow> initial_state\<lparr>stderr := message, exitStatus := status\<rparr>
      | Accepted fl \<Rightarrow> program x fl r)"

section \<open>Vocabulary of the properties\<close>

text \<open>
  The status of an outcome indicates success when a response is there and its code is
  \<^verbatim>\<open>http.StatusOK\<close>; an outcome is a success when moreover the error is absent. An
  outcome answers when it carries a response or an error.
\<close>

definition status_is_success :: "autorest_Response \<Rightarrow> bool" where
  "status_is_success response = (case response of None \<Rightarrow> False | Some h \<Rightarrow> StatusOK = StatusCode h)"

definition succeeded :: "autorest_Response \<times> error option \<Rightarrow> bool" where
  "succeeded outcome = (snd outcome = None \<and> status_is_success (fst outcome))"

definition answers :: "autorest_Response \<times> error option \<Rightarrow> bool" where
  "answers outcome = (\<not> (fst outcome = None \<and> snd outcome = None))"

text \<open>What \<^verbatim>\<open>executeWithStatus\<close> writes, as a function of the message and the outcome.\<close>

definition verdict :: "autorest_Response \<times> error option \<Rightarrow> string" where
  "verdict outcome = (if succeeded outcome then ''SUCCESS'' else ''FAILED'') @ newline"

definition narration :: "string \<Rightarrow> autorest_Response \<times> error option \<Rightarrow> string" where
  "narration message outcome = message @ ''...'' @ verdict outcome"

definition failure_detail :: "autorest_Response \<times> error option \<Rightarrow> string" where
  "failure_detail outcome =
     (if succeeded outcome then [] else getFailureStatus (snd outcome) (fst outcome))"

definition written :: "writer \<Rightarrow> string \<Rightarrow> string" where
  "written w text = (case w of Discard \<Rightarrow> [] | Stdout \<Rightarrow> text)"

text \<open>
  The executor reports a failure between two states when it wrote the line
  \<^verbatim>\<open>FAILED\<close> to the output writer and something to standard error; it reports a
  success when it wrote the line \<^verbatim>\<open>SUCCESS\<close> and nothing to standard error.
\<close>

definition reported_failure :: "writer \<Rightarrow> state \<Rightarrow> state \<Rightarrow> bool" where
  "reported_failure w before after =
     (stdout after = stdout before @ written w (''FAILED'' @ newline) \<and>
      stderr after \<noteq> stderr before)"

definition reported_success :: "writer \<Rightarrow> state \<Rightarrow> state \<Rightarrow> bool" where
  "reported_success w before after =
     (stdout after = stdout before @ written w (''SUCCESS'' @ newline) \<and>
      stderr after = stderr before)"

text \<open>What the wait before the cleanup adds to the trace and to standard output.\<close>

definition wait_effects :: "globals \<Rightarrow> effect list" where
  "wait_effects g = (if pause g then [Scanln] else if delay g > 0 then [Sleep (delay g)] else [])"

definition wait_text :: "globals \<Rightarrow> writer \<Rightarrow> string" where
  "wait_text g w =
     (if pause g then ''Press Enter to continue...''
      else if delay g > 0
      then written w (''Delaying '' @ string_of_nat (delay g) @ '' seconds...'')
             @ written w (''DONE'' @ newline)
      else [])"

text \<open>The remote calls of a trace, and the kinds the properties count.\<close>

fun remote_calls :: "effect list \<Rightarrow> call list" where
  "remote_calls [] = []"
| "remote_calls (Remote c # es) = c # remote_calls es"
| "remote_calls (e # es) = remote_calls es"

fun is_group_creation :: "call \<Rightarrow> bool" where
  "is_group_creation (GroupsCreateOrUpdate n) = True"
| "is_group_creation c = False"

fun is_group_deletion :: "call \<Rightarrow> bool" where
  "is_group_deletion (GroupsDelete n) = True"
| "is_group_deletion c = False"

fun is_network_creation :: "call \<Rightarrow> bool" where
  "is_network_creation (VirtualNetworksCreateOrUpdate g n) = True"
| "is_network_creation c = False"

fun is_security_group_creation :: "call \<Rightarrow> bool" where
  "is_security_group_creation (SecurityGroupsCreateOrUpdate g n) = True"
| "is_security_group_creation c = False"

fun is_subnet_creation :: "call \<Rightarrow> bool" where
  "is_subnet_creation (SubnetsCreateOrUpdate g v n) = True"
| "is_subnet_creation c = False"

fun is_rule_creation :: "call \<Rightarrow> bool" where
  "is_rule_creation (SecurityRulesCreateOrUpdate g v n) = True"
| "is_rule_creation c = False"

definition count_calls :: "(call \<Rightarrow> bool) \<Rightarrow> state \<Rightarrow> nat" where
  "count_calls kind s = length (filter kind (remote_calls (trace s)))"

text \<open>The groups a run deleted.\<close>

fun deleted_groups :: "call list \<Rightarrow> string list" where
  "deleted_groups [] = []"
| "deleted_groups (GroupsDelete n # cs) = n # deleted_groups cs"
| "deleted_groups (c # cs) = deleted_groups cs"

text \<open>
  Credentials are well formed when the three identifiers are present and parse, the
  secret is present, and the token is obtained without an error.
\<close>

definition well_formed_credentials :: "externals \<Rightarrow> bool" where
  "well_formed_credentials x =
     (Getenv x azureEnvVarNameTenantID \<noteq> [] \<and>
      Getenv x azureEnvVarNameSubscriptionID \<noteq> [] \<and>
      Getenv x azureEnvVarNameClientID \<noteq> [] \<and>
      Getenv x azureEnvVarNameClientSecret \<noteq> [] \<and>
      (case guid_Parse x (Getenv x azureEnvVarNameTenantID) of
         None \<Rightarrow> False
       | Some tenant \<Rightarrow>
           (case guid_Parse x (Getenv x azureEnvVarNameSubscriptionID) of
              None \<Rightarrow> False
            | Some subscription \<Rightarrow>
                (case guid_Parse x (Getenv x azureEnvVarNameClientID) of
                   None \<Rightarrow> False
                 | Some client \<Rightarrow>
                     (case NewOAuthConfig x tenant of
                        Inl err \<Rightarrow> False
                      | Inr authConfig \<Rightarrow>
                          (case NewServicePrincipalToken x authConfig client
                                  (Getenv x azureEnvVarNameClientSecret) of
                             (tok, err) \<Rightarrow> tok \<noteq> None \<and> err = None))))))"


text \<open>
  The stages of the run that have an exit code, and the stage at which the run first
  observes a failure: the tests of \<^verbatim>\<open>main\<close>, in their order, on what the remote answers.
  It observes none when every test passes, and when an outcome that does not answer ends
  the run before any test fails. This is the side of the code, not of the executor's
  verdict: \<^verbatim>\<open>main\<close> tests the error a stage returns to it, which for a security group
  is the error of \<^verbatim>\<open>Get\<close> and not that of the creation, and it does not test the status.
  It serves to select runs by the test that ends them.
\<close>

datatype stage =
    Authentication
  | ResourceGroupCreation
  | VirtualNetworkCreation
  | SecurityGroupCreation
  | SubnetCreation
  | SecurityRuleCreation

fun exit_code_of :: "stage option \<Rightarrow> int" where
  "exit_code_of None = ExitSuccess"
| "exit_code_of (Some Authentication) = ExitAuthenticationFailure"
| "exit_code_of (Some ResourceGroupCreation) = ExitResourceGroupCreationFailure"
| "exit_code_of (Some VirtualNetworkCreation) = ExitVirtualNetworkCreationFailure"
| "exit_code_of (Some SecurityGroupCreation) = ExitNetworkSecuritryGroupCreationFailure"
| "exit_code_of (Some SubnetCreation) = ExitSubnetCreationFailure"
| "exit_code_of (Some SecurityRuleCreation) = ExitSecurityRuleCreationFailure"

definition exit_codes :: "int list" where
  "exit_codes =
     [ExitSuccess, ExitAuthenticationFailure, ExitResourceGroupCreationFailure,
      ExitVirtualNetworkCreationFailure, ExitNetworkSecuritryGroupCreationFailure,
      ExitSecurityRuleCreationFailure, ExitSubnetCreationFailure]"

definition chosen_name :: "remote \<Rightarrow> string" where
  "chosen_name r = uniqueNameAmong (Value (fst (groups_List r)))"

definition resource_group_created :: "remote \<Rightarrow> bool" where
  "resource_group_created r =
     (snd (groups_List r) = None \<and> status_is_success (Response (fst (groups_List r))) \<and>
      groups_CreateOrUpdate r (chosen_name r) = None)"

definition frontEnd :: "remote \<Rightarrow> SecurityGroup" where
  "frontEnd r = fst (securityGroups_Get r (chosen_name r) ''frontend'')"

definition backEnd :: "remote \<Rightarrow> SecurityGroup" where
  "backEnd r = fst (securityGroups_Get r (chosen_name r) ''backend'')"

definition provision_failure :: "remote \<Rightarrow> string \<Rightarrow> stage option" where
  "provision_failure r n =
     (if answers (virtualNetworks_CreateOrUpdate r n networkName) = False then None
      else if snd (virtualNetworks_CreateOrUpdate r n networkName) \<noteq> None
      then Some VirtualNetworkCreation
      else if answers (securityGroups_CreateOrUpdate r n ''frontend'') = False then None
      else if snd (securityGroups_Get r n ''frontend'') \<noteq> None
      then Some SecurityGroupCreation
      else if answers (securityGroups_CreateOrUpdate r n ''backend'') = False then None
      else if snd (securityGroups_Get r n ''backend'') \<noteq> None
      then Some SecurityGroupCreation
      else if answers (subnets_CreateOrUpdate r n networkName ''frontendSubnet'') = False then None
      else if snd (subnets_CreateOrUpdate r n networkName ''frontendSubnet'') \<noteq> None
      then Some SubnetCreation
      else if answers (subnets_CreateOrUpdate r n networkName ''backendSubnet'') = False then None
      else if snd (subnets_CreateOrUpdate r n networkName ''backendSubnet'') \<noteq> None
      then Some SubnetCreation
      else if answers (securityRules_CreateOrUpdate r n
                         (Name (fst (securityGroups_Get r n ''frontend''))) ''ALLOW-SSH'') = False
      then None
      else if snd (securityRules_CreateOrUpdate r n
                     (Name (fst (securityGroups_Get r n ''frontend''))) ''ALLOW-SSH'') \<noteq> None
      then Some SecurityRuleCreation
      else None)"

definition first_observed_failure :: "globals \<Rightarrow> remote \<Rightarrow> stage option" where
  "first_observed_failure g r =
     (if help g then None
      else if token g = None then Some Authentication
      else if answers (Response (fst (groups_List r)), snd (groups_List r)) = False then None
      else if resource_group_created r = False then Some ResourceGroupCreation
      else provision_failure r (chosen_name r))"

text \<open>
  The remote calls a run issues, as a function of what the remote answers: those of the
  four rules, those of the provisioning for the group \<open>n\<close>, those of
  \<^verbatim>\<open>createResourceGroup\<close>. A stage passes when its outcome answers without an error;
  after an outcome that does not answer, the run issues no further creation.
\<close>

definition passes :: "autorest_Response \<times> error option \<Rightarrow> bool" where
  "passes outcome = (answers outcome \<and> snd outcome = None)"

definition rule_calls :: "remote \<Rightarrow> string \<Rightarrow> string \<Rightarrow> string \<Rightarrow> call list" where
  "rule_calls r n frontend backend =
     SecurityRulesCreateOrUpdate n frontend ''ALLOW-SSH'' #
     (if passes (securityRules_CreateOrUpdate r n frontend ''ALLOW-SSH'')
      then SecurityRulesCreateOrUpdate n frontend ''ALLOW-HTTP'' #
     (if answers (securityRules_CreateOrUpdate r n frontend ''ALLOW-HTTP'')
      then SecurityRulesCreateOrUpdate n backend ''ALLOW-SQL'' #
     (if answers (securityRules_CreateOrUpdate r n backend ''ALLOW-SQL'')
      then [SecurityRulesCreateOrUpdate n backend ''DENY-OUT'']
      else [])
      else [])
      else [])"

text \<open>The four rules reach the wait before the cleanup.\<close>

definition rules_complete :: "remote \<Rightarrow> string \<Rightarrow> string \<Rightarrow> string \<Rightarrow> bool" where
  "rules_complete r n frontend backend =
     (passes (securityRules_CreateOrUpdate r n frontend ''ALLOW-SSH'') \<and>
      answers (securityRules_CreateOrUpdate r n frontend ''ALLOW-HTTP'') \<and>
      answers (securityRules_CreateOrUpdate r n backend ''ALLOW-SQL'') \<and>
      answers (securityRules_CreateOrUpdate r n backend ''DENY-OUT''))"

definition provision_calls :: "remote \<Rightarrow> string \<Rightarrow> call list" where
  "provision_calls r n =
     VirtualNetworksCreateOrUpdate n networkName #
     (if passes (virtualNetworks_CreateOrUpdate r n networkName)
      then SecurityGroupsCreateOrUpdate n ''frontend'' #
     (if answers (securityGroups_CreateOrUpdate r n ''frontend'')
      then SecurityGroupsGet n ''frontend'' #
     (if snd (securityGroups_Get r n ''frontend'') = None
      then SecurityGroupsCreateOrUpdate n ''backend'' #
     (if answers (securityGroups_CreateOrUpdate r n ''backend'')
      then SecurityGroupsGet n ''backend'' #
     (if snd (securityGroups_Get r n ''backend'') = None
      then SubnetsCreateOrUpdate n networkName ''frontendSubnet'' #
     (if passes (subnets_CreateOrUpdate r n networkName ''frontendSubnet'')
      then SubnetsCreateOrUpdate n networkName ''backendSubnet'' #
     (if passes (subnets_CreateOrUpdate r n networkName ''backendSubnet'')
      then rule_calls r n (Name (fst (securityGroups_Get r n ''frontend'')))
             (Name (fst (securityGroups_Get r n ''backend'')))
      else [])
      else [])
      else [])
      else [])
      else [])
      else [])
      else [])"

text \<open>The provisioning reaches the wait before the cleanup.\<close>

definition provision_completes :: "remote \<Rightarrow> string \<Rightarrow> bool" where
  "provision_completes r n =
     (passes (virtualNetworks_CreateOrUpdate r n networkName) \<and>
      answers (securityGroups_CreateOrUpdate r n ''frontend'') \<and>
      snd (securityGroups_Get r n ''frontend'') = None \<and>
      answers (securityGroups_CreateOrUpdate r n ''backend'') \<and>
      snd (securityGroups_Get r n ''backend'') = None \<and>
      passes (subnets_CreateOrUpdate r n networkName ''frontendSubnet'') \<and>
      passes (subnets_CreateOrUpdate r n networkName ''backendSubnet'') \<and>
      rules_complete r n (Name (fst (securityGroups_Get r n ''frontend'')))
        (Name (fst (securityGroups_Get r n ''backend''))))"

definition resource_group_calls :: "remote \<Rightarrow> call list" where
  "resource_group_calls r =
     GroupsList #
     (if snd (groups_List r) = None \<and> status_is_success (Response (fst (groups_List r)))
      then [GroupsCreateOrUpdate (chosen_name r)]
      else [])"

text \<open>
  The effects of a run: its remote calls and, when the provisioning completes, the wait
  before the cleanup.
\<close>

definition provision_effects :: "globals \<Rightarrow> remote \<Rightarrow> string \<Rightarrow> effect list" where
  "provision_effects g r n =
     map Remote (provision_calls r n) @
     (if provision_completes r n then wait_effects g else [])"

definition main_effects :: "globals \<Rightarrow> remote \<Rightarrow> effect list" where
  "main_effects g r =
     (if help g then []
      else if token g = None then []
      else map Remote (resource_group_calls r) @
           (if resource_group_created r
            then provision_effects g r (chosen_name r) @ [Remote (GroupsDelete (chosen_name r))]
            else []))"

text \<open>The package-level variables as \<^verbatim>\<open>init\<close> leaves them at process start.\<close>

definition globals_after_init :: "externals \<Rightarrow> flags \<Rightarrow> globals" where
  "globals_after_init x fl = fst (init x fl initial_state)"

text \<open>
  The first integer suffix, from \<open>n\<close> on and within \<open>fuel\<close> steps, that no listed name
  carries; \<open>Suc (length names)\<close> steps always reach one.
\<close>

fun first_missing_from :: "string list \<Rightarrow> nat \<Rightarrow> nat \<Rightarrow> nat" where
  "first_missing_from names n 0 = n"
| "first_missing_from names n (Suc fuel) =
     (if resourceGroupNamePrefix @ string_of_nat n \<in> set names
      then first_missing_from names (Suc n) fuel
      else n)"

definition first_missing_suffix :: "string list \<Rightarrow> nat" where
  "first_missing_suffix names = first_missing_from names 0 (Suc (length names))"

text \<open>The bare prefix followed by the contiguous run of suffixes 0 to K.\<close>

definition contiguous_run :: "nat \<Rightarrow> string list" where
  "contiguous_run K =
     resourceGroupNamePrefix # map (\<lambda>n. resourceGroupNamePrefix @ string_of_nat n) [0..<Suc K]"

section \<open>Concrete scenarios\<close>

text \<open>
  A remote whose listing answers the given names with status 200 and on which every
  other call succeeds; well-formed credentials; the default command line.
\<close>

definition ok_response :: http_Response where
  "ok_response = \<lparr>StatusCode = 200, Status = ''200 OK''\<rparr>"

definition ok_outcome :: "autorest_Response \<times> error option" where
  "ok_outcome = (Some ok_response, None)"

definition remote_with :: "string list \<Rightarrow> remote" where
  "remote_with names =
     \<lparr>groups_List = (\<lparr>Response = Some ok_response, Value = names\<rparr>, None),
      groups_CreateOrUpdate = (\<lambda>n. None),
      groups_Delete = (\<lambda>n. ok_outcome),
      virtualNetworks_CreateOrUpdate = (\<lambda>g n. ok_outcome),
      securityGroups_CreateOrUpdate = (\<lambda>g n. ok_outcome),
      securityGroups_Get = (\<lambda>g n. (\<lparr>Name = n\<rparr>, None)),
      subnets_CreateOrUpdate = (\<lambda>g v n. ok_outcome),
      securityRules_CreateOrUpdate = (\<lambda>g s n. ok_outcome)\<rparr>"

definition sample_guid :: string where
  "sample_guid = ''01234567-89ab-cdef-0123-456789abcdef''"

definition externals_with :: "(string \<Rightarrow> string) \<Rightarrow> externals" where
  "externals_with env =
     \<lparr>Getenv = env,
      guid_Parse = (\<lambda>v. if v = sample_guid then Some sample_guid else None),
      PrintDefaults = ''usage'',
      NewOAuthConfig = (\<lambda>tenant. Inr tenant),
      NewServicePrincipalToken = (\<lambda>authConfig client secret. (Some ''token'', None))\<rparr>"

definition full_environment :: "string \<Rightarrow> string" where
  "full_environment name = (if name = azureEnvVarNameClientSecret then ''secret'' else sample_guid)"

definition environment_without_tenant :: "string \<Rightarrow> string" where
  "environment_without_tenant name =
     (if name = azureEnvVarNameTenantID then [] else full_environment name)"

definition default_flags :: flags where
  "default_flags = \<lparr>flag_quiet = False, flag_pause = False, flag_delay = 0, flag_help = False\<rparr>"

text \<open>A command line with a flag that is not defined, as \<^verbatim>\<open>flag.Parse\<close> rejects it.\<close>

definition undefined_flag :: command_line where
  "undefined_flag = Rejected ''flag provided but not defined: -verbose'' 2"

definition help_flags :: flags where
  "help_flags = \<lparr>flag_quiet = False, flag_pause = False, flag_delay = 0, flag_help = True\<rparr>"

definition gap_names :: "string list" where
  "gap_names =
     [''networkSecurityGroupSample'', ''networkSecurityGroupSample0'',
      ''networkSecurityGroupSample1'', ''networkSecurityGroupSample2'',
      ''networkSecurityGroupSample10'']"

text \<open>The package-level variables once the environment and the command line are read.\<close>

definition read_environment :: "externals \<Rightarrow> flags \<Rightarrow> globals" where
  "read_environment x fl =
     initial_globals
       \<lparr>subscriptionID := Getenv x azureEnvVarNameSubscriptionID,
        clientID := Getenv x azureEnvVarNameClientID,
        clientSecret := Getenv x azureEnvVarNameClientSecret,
        tenantID := Getenv x azureEnvVarNameTenantID,
        pause := flag_pause fl, delay := flag_delay fl, help := flag_help fl\<rparr>"

text \<open>
  Every remote call succeeds: the listing and the creation of the resource group, every
  wrapped call, and \<^verbatim>\<open>Get\<close> on a security group.
\<close>

definition all_succeed :: "remote \<Rightarrow> bool" where
  "all_succeed r =
     (resource_group_created r \<and>
      (\<forall>n. succeeded (groups_Delete r n)) \<and>
      (\<forall>a b. succeeded (virtualNetworks_CreateOrUpdate r a b)) \<and>
      (\<forall>a b. succeeded (securityGroups_CreateOrUpdate r a b)) \<and>
      (\<forall>a b. snd (securityGroups_Get r a b) = None) \<and>
      (\<forall>a b c. succeeded (subnets_CreateOrUpdate r a b c)) \<and>
      (\<forall>a b c. succeeded (securityRules_CreateOrUpdate r a b c)))"

text \<open>The remote calls of a run in which every stage passes, in their order.\<close>

definition full_run :: "remote \<Rightarrow> call list" where
  "full_run r =
     [GroupsList,
      GroupsCreateOrUpdate (chosen_name r),
      VirtualNetworksCreateOrUpdate (chosen_name r) networkName,
      SecurityGroupsCreateOrUpdate (chosen_name r) ''frontend'',
      SecurityGroupsGet (chosen_name r) ''frontend'',
      SecurityGroupsCreateOrUpdate (chosen_name r) ''backend'',
      SecurityGroupsGet (chosen_name r) ''backend'',
      SubnetsCreateOrUpdate (chosen_name r) networkName ''frontendSubnet'',
      SubnetsCreateOrUpdate (chosen_name r) networkName ''backendSubnet'',
      SecurityRulesCreateOrUpdate (chosen_name r) (Name (frontEnd r)) ''ALLOW-SSH'',
      SecurityRulesCreateOrUpdate (chosen_name r) (Name (frontEnd r)) ''ALLOW-HTTP'',
      SecurityRulesCreateOrUpdate (chosen_name r) (Name (backEnd r)) ''ALLOW-SQL'',
      SecurityRulesCreateOrUpdate (chosen_name r) (Name (backEnd r)) ''DENY-OUT'',
      GroupsDelete (chosen_name r)]"

text \<open>Globals that write to standard output, and outcomes for the four cases of the executor.\<close>

definition stdout_globals :: globals where
  "stdout_globals = initial_globals\<lparr>output := Some Stdout, token := Some ''token''\<rparr>"

definition not_found_response :: http_Response where
  "not_found_response = \<lparr>StatusCode = 404, Status = ''404 Not Found''\<rparr>"

definition started :: state where
  "started = initial_state\<lparr>stdout := ''Working...''\<rparr>"

text \<open>
  Remotes on which one call fails with an error: the creation of the virtual network,
  the creation of the front-end security group (whose \<^verbatim>\<open>Get\<close> succeeds), the first
  security rule, and every security rule but the first.
\<close>

definition conflict :: "autorest_Response \<times> error option" where
  "conflict = (Some \<lparr>StatusCode = 409, Status = ''409 Conflict''\<rparr>, Some ''conflict'')"

definition remote_failing_network :: remote where
  "remote_failing_network =
     (remote_with [])\<lparr>virtualNetworks_CreateOrUpdate := (\<lambda>g n. conflict)\<rparr>"

definition remote_failing_security_group :: remote where
  "remote_failing_security_group =
     (remote_with [])\<lparr>securityGroups_CreateOrUpdate :=
        (\<lambda>g n. if n = ''frontend'' then conflict else ok_outcome)\<rparr>"




definition remote_failing_group :: remote where
  "remote_failing_group = (remote_with [])\<lparr>groups_CreateOrUpdate := (\<lambda>n. Some ''denied'')\<rparr>"

text \<open>A remote on which the creation of the virtual network answers 201 without an error.\<close>

definition created_outcome :: "autorest_Response \<times> error option" where
  "created_outcome = (Some \<lparr>StatusCode = 201, Status = ''201 Created''\<rparr>, None)"

definition remote_network_201 :: remote where
  "remote_network_201 =
     (remote_with [])\<lparr>virtualNetworks_CreateOrUpdate := (\<lambda>g n. created_outcome)\<rparr>"

section \<open>The name allocator\<close>

text \<open>
  With the bare prefix and the suffixes 0 to K listed, the allocator answers the suffix
  K + 1 for every K below 10: the byte-wise order of the names is then the order of
  their suffixes.
\<close>

lemma contiguous_run_below_ten:
  "list_all (\<lambda>K. uniqueNameAmong (contiguous_run K) = resourceGroupNamePrefix @ string_of_nat (Suc K))
     [0..<10]"
  by code_simp

text \<open>
  C1 (the returned name equals no listed name) fails on the code. With the bare prefix
  and the suffixes 0 to 10 listed and the listing answered with status 200,
  \<^verbatim>\<open>sort.Strings\<close> puts the suffix 10 before the suffix 2, the scan compares position 3
  with the candidate of suffix 2, and the allocator returns that candidate, which is
  listed.
\<close>

theorem getUniqueResourceGroupName_returns_listed_name:
  "fst (getUniqueResourceGroupName (remote_with (contiguous_run 10)) initial_state)
     = Ok (''networkSecurityGroupSample2'', None) \<and>
   ''networkSecurityGroupSample2'' \<in> set (contiguous_run 10)"
  by code_simp

text \<open>
  C5 (with the bare prefix and exactly the suffixes 0 to K listed, the allocator returns
  the suffix K + 1) fails on the code at K = 10: the allocator returns the suffix 2, not
  the suffix 11.
\<close>

theorem getUniqueResourceGroupName_contiguous_run_10:
  "fst (getUniqueResourceGroupName (remote_with (contiguous_run 10)) initial_state)
     = Ok (resourceGroupNamePrefix @ string_of_nat 2, None) \<and>
   resourceGroupNamePrefix @ string_of_nat 2 \<noteq> resourceGroupNamePrefix @ string_of_nat (Suc 10)"
  by code_simp

text \<open>
  C9 (with the bare prefix listed and a gap in the suffixes, the allocator returns the
  first missing suffix) fails on the code: with the suffixes 0, 1, 2 and 10 listed the
  first missing suffix is 3, and the allocator returns the suffix 2, which is listed.
\<close>

theorem getUniqueResourceGroupName_gap_after_2:
  "first_missing_suffix gap_names = 3 \<and>
   fst (getUniqueResourceGroupName (remote_with gap_names) initial_state)
     = Ok (resourceGroupNamePrefix @ string_of_nat 2, None) \<and>
   resourceGroupNamePrefix @ string_of_nat 2 \<in> set gap_names"
  by code_simp

section \<open>The executor\<close>

lemma Fprint_Some: "Fprint (Some w) text s = (Ok (), s\<lparr>stdout := stdout s @ written w text\<rparr>)"
  by (cases w) (simp_all add: Fprint_def written_def)

lemma Fprint_None: "Fprint None text s = (Panic, s)"
  by (simp add: Fprint_def)

lemma getFailureStatus_not_empty: "getFailureStatus err response \<noteq> []"
  by (simp add: getFailureStatus_def Let_def newline_def tab_def split: option.splits)

lemma executeWithStatus_nil_writer:
  "output g = None \<Longrightarrow> executeWithStatus g operation message s = (Panic, s)"
  by (simp add: executeWithStatus_def andThen_def Fprint_None)

text \<open>
  When the operation returns an outcome with neither a response nor an error, the test
  \<^verbatim>\<open>http.StatusOK == response.StatusCode\<close> reads through the nil pointer.
\<close>

lemma executeWithStatus_operation:
  assumes "output g = Some w"
    and "operation (s\<lparr>stdout := stdout s @ written w (message @ ''...'')\<rparr>) = (Ok outcome, s')"
  shows "executeWithStatus g operation message s =
    (if answers outcome
     then (Ok outcome, s'\<lparr>stdout := stdout s' @ written w (verdict outcome),
                           stderr := stderr s' @ failure_detail outcome\<rparr>)
     else (Panic, s'))"
  using assms
  by (cases outcome)
     (auto simp: executeWithStatus_def andThen_def ret_def panic_def reportFailed_def
        reportSuccess_def Fprint_Some Fprint_Stderr_def verdict_def failure_detail_def
        succeeded_def status_is_success_def answers_def split: option.splits)

text \<open>
  C4. The operation is run in the state that follows the start marker and returns the
  outcome (response, err); the outcome carries a response or an error. Then the executor
  reports a failure exactly when the error is present or the status is not a success,
  and reports a success exactly when the error is absent and the status is a success.
\<close>

theorem executeWithStatus_reports:
  assumes "output g = Some w"
    and "operation (s\<lparr>stdout := stdout s @ written w (message @ ''...'')\<rparr>) = (Ok (response, err), s')"
    and "answers (response, err)"
  shows "(reported_failure w s' (snd (executeWithStatus g operation message s))
            \<longleftrightarrow> (err \<noteq> None \<or> \<not> status_is_success response)) \<and>
         (reported_success w s' (snd (executeWithStatus g operation message s))
            \<longleftrightarrow> (err = None \<and> status_is_success response))"
  using assms getFailureStatus_not_empty [of err response]
  by (auto simp: executeWithStatus_operation reported_failure_def reported_success_def
        verdict_def failure_detail_def succeeded_def written_def newline_def split: writer.splits)

text \<open>The four combinations of error and status, on operations that only return.\<close>

theorem executeWithStatus_reports_witness:
  "reported_success Stdout started
     (snd (executeWithStatus stdout_globals (ret (Some ok_response, None)) ''Working'' initial_state)) \<and>
   reported_failure Stdout started
     (snd (executeWithStatus stdout_globals (ret (Some not_found_response, None)) ''Working'' initial_state)) \<and>
   reported_failure Stdout started
     (snd (executeWithStatus stdout_globals (ret (Some ok_response, Some ''timeout'')) ''Working'' initial_state)) \<and>
   reported_failure Stdout started
     (snd (executeWithStatus stdout_globals (ret (Some not_found_response, Some ''timeout'')) ''Working'' initial_state))"
proof -
  have g: "output stdout_globals = Some Stdout"
    by (simp add: stdout_globals_def initial_globals_def)
  have op: "ret outcome
      (initial_state\<lparr>stdout := stdout initial_state @ written Stdout (''Working'' @ ''...'')\<rparr>)
      = (Ok outcome, started)" for outcome :: "autorest_Response \<times> error option"
    by (simp add: ret_def started_def initial_state_def written_def)
  have ok: "status_is_success (Some ok_response)"
    and nf: "\<not> status_is_success (Some not_found_response)"
    by (simp_all add: status_is_success_def ok_response_def not_found_response_def StatusOK_def)
  have a: "answers (Some h, err)" for h :: http_Response and err :: "error option"
    by (simp add: answers_def)
  note r = executeWithStatus_reports [where g = stdout_globals and w = Stdout
      and s = initial_state and message = "''Working''" and s' = started]
  show ?thesis
    using r [where operation = "ret (Some ok_response, None)", OF g op a]
      r [where operation = "ret (Some not_found_response, None)", OF g op a]
      r [where operation = "ret (Some ok_response, Some ''timeout'')", OF g op a]
      r [where operation = "ret (Some not_found_response, Some ''timeout'')", OF g op a]
    by (simp add: ok nf)
qed

text \<open>
  C10. Under the same conditions the executor returns the outcome of the operation as
  it is, and the state it leaves is the state the operation left after its one run, with
  the verdict appended to the output and the failure detail to standard error: nothing
  else of the state changes, so the operation has run once.
\<close>

theorem executeWithStatus_returns_outcome:
  assumes "output g = Some w"
    and "operation (s\<lparr>stdout := stdout s @ written w (message @ ''...'')\<rparr>) = (Ok (response, err), s')"
    and "answers (response, err)"
  shows "executeWithStatus g operation message s =
           (Ok (response, err),
            s'\<lparr>stdout := stdout s' @ written w (verdict (response, err)),
               stderr := stderr s' @ failure_detail (response, err)\<rparr>)"
  using assms by (simp add: executeWithStatus_operation)

lemma remote_calls_append: "remote_calls (xs @ ys) = remote_calls xs @ remote_calls ys"
  by (induction xs rule: remote_calls.induct) simp_all

lemma remote_call_apply: "remote_call c a s = (Ok a, s\<lparr>trace := trace s @ [Remote c]\<rparr>)"
  by (simp add: remote_call_def andThen_def invoke_def ret_def)

text \<open>A remote call wrapped by the executor is issued once, and its failed outcome returned.\<close>

theorem executeWithStatus_returns_outcome_witness:
  "fst (executeWithStatus stdout_globals
          (remote_call (GroupsDelete ''group'') (Some not_found_response, Some ''gone''))
          ''Working'' initial_state)
     = Ok (Some not_found_response, Some ''gone'') \<and>
   trace (snd (executeWithStatus stdout_globals
          (remote_call (GroupsDelete ''group'') (Some not_found_response, Some ''gone''))
          ''Working'' initial_state))
     = [Remote (GroupsDelete ''group'')]"
proof -
  have g: "output stdout_globals = Some Stdout"
    by (simp add: stdout_globals_def initial_globals_def)
  have a: "answers (Some not_found_response, Some ''gone'')"
    by (simp add: answers_def)
  have op: "remote_call (GroupsDelete ''group'') (Some not_found_response, Some ''gone'')
      (initial_state\<lparr>stdout := stdout initial_state @ written Stdout (''Working'' @ ''...'')\<rparr>)
      = (Ok (Some not_found_response, Some ''gone''),
         started\<lparr>trace := [Remote (GroupsDelete ''group'')]\<rparr>)"
    by (simp add: remote_call_apply initial_state_def started_def written_def)
  show ?thesis
    using executeWithStatus_returns_outcome [where g = stdout_globals and w = Stdout
        and operation = "remote_call (GroupsDelete ''group'') (Some not_found_response, Some ''gone'')"
        and s = initial_state and message = "''Working''", OF g op a]
    by simp
qed

section \<open>The stages, one at a time\<close>

lemma executeWithStatus_remote_call:
  assumes "output g = Some w"
  shows "executeWithStatus g (remote_call c outcome) message s =
    (if answers outcome
     then (Ok outcome, s\<lparr>trace := trace s @ [Remote c],
                           stdout := stdout s @ written w (narration message outcome),
                           stderr := stderr s @ failure_detail outcome\<rparr>)
     else (Panic, s\<lparr>trace := trace s @ [Remote c],
                     stdout := stdout s @ written w (message @ ''...'')\<rparr>))"
  using assms
  by (simp add: executeWithStatus_operation [OF assms remote_call_apply] narration_def written_def
      split: writer.splits)

lemma succeeded_answers: "succeeded outcome \<Longrightarrow> answers outcome"
  by (auto simp: succeeded_def answers_def status_is_success_def split: option.splits)

lemma succeeded_snd: "succeeded outcome \<Longrightarrow> snd outcome = None"
  by (simp add: succeeded_def)

lemma error_answers: "snd outcome = Some e \<Longrightarrow> answers outcome"
  by (simp add: answers_def)

lemma waitBeforeCleanup_apply:
  assumes "output g = Some w"
  shows "waitBeforeCleanup g s =
     (Ok (), s\<lparr>trace := trace s @ wait_effects g, stdout := stdout s @ wait_text g w\<rparr>)"
  using assms
  by (simp add: waitBeforeCleanup_def wait_effects_def wait_text_def andThen_def Fprint_Some
        block_def ret_def written_def)

lemma remote_calls_wait_effects: "remote_calls (wait_effects g) = []"
  by (simp add: wait_effects_def)

lemma getUniqueResourceGroupName_ok:
  assumes "snd (groups_List r) = None" "status_is_success (Response (fst (groups_List r)))"
  shows "getUniqueResourceGroupName r s =
     (Ok (chosen_name r, None), s\<lparr>trace := trace s @ [Remote GroupsList]\<rparr>)"
  using assms
  by (cases "groups_List r")
     (auto simp: getUniqueResourceGroupName_def andThen_def remote_call_apply ret_def
        status_is_success_def chosen_name_def split: option.splits)

lemma createResourceGroup_ok:
  assumes "output g = Some w" "resource_group_created r"
  shows "createResourceGroup g r s =
     (Ok (chosen_name r, None),
      s\<lparr>trace := trace s @ [Remote GroupsList, Remote (GroupsCreateOrUpdate (chosen_name r))],
        stdout := stdout s
          @ written w (''Creating Resource Group '' @ quote @ chosen_name r @ quote @ ''...'')
          @ written w (''SUCCESS'' @ newline)\<rparr>)"
  using assms
  by (simp add: createResourceGroup_def andThen_def getUniqueResourceGroupName_ok
        resource_group_created_def remote_call_apply ret_def Fprint_Some)

lemmas stage_defs = createVirtualNetwork_def createNetworkSecurityGroup_def createSubnet_def
  createSecurityRule_def createSecurityRules_def provision_def deleteResourceGroup_def

section \<open>init\<close>

lemma validateParameters_no_tenant:
  "tenantID g = [] \<Longrightarrow> fst (validateParameters x g) \<noteq> []"
  by (simp add: validateParameters_def Let_def case_prod_beta split: option.splits)

lemma validateParameters_frame:
  "token (snd (validateParameters x g)) = token g"
  "help (snd (validateParameters x g)) = help g"
  "output (snd (validateParameters x g)) = output g"
  "pause (snd (validateParameters x g)) = pause g"
  "delay (snd (validateParameters x g)) = delay g"
  by (simp_all add: validateParameters_def Let_def case_prod_beta split: option.splits)

lemma init_help:
  assumes "flag_help fl"
  shows "help (fst (init x fl s)) \<and> trace (snd (init x fl s)) = trace s"
  using assms by (simp add: init_def Let_def initial_globals_def)

lemma init_no_tenant:
  assumes "Getenv x azureEnvVarNameTenantID = []" "\<not> flag_help fl"
  shows "token (fst (init x fl s)) = None \<and> \<not> help (fst (init x fl s)) \<and>
    trace (snd (init x fl s)) = trace s"
proof -
  let ?g = "(read_environment x fl)\<lparr>output := Some (if flag_quiet fl then Discard else Stdout)\<rparr>"
  have "tenantID ?g = []"
    using assms by (simp add: read_environment_def)
  then have errs: "fst (validateParameters x ?g) \<noteq> []"
    by (rule validateParameters_no_tenant)
  have init: "init x fl s =
      (snd (validateParameters x ?g), print_errs (fst (validateParameters x ?g)) s)"
    using assms errs
    by (simp add: init_def Let_def case_prod_beta read_environment_def)
  show ?thesis
    using assms
    by (simp add: init validateParameters_frame print_errs_def read_environment_def
        initial_globals_def)
qed

lemma init_well_formed:
  assumes "well_formed_credentials x" "\<not> flag_help fl"
  shows "snd (init x fl s) = s \<and> token (fst (init x fl s)) \<noteq> None \<and>
    output (fst (init x fl s)) = Some (if flag_quiet fl then Discard else Stdout) \<and>
    \<not> help (fst (init x fl s)) \<and> pause (fst (init x fl s)) = flag_pause fl \<and>
    delay (fst (init x fl s)) = flag_delay fl"
  using assms
  by (auto simp: well_formed_credentials_def init_def validateParameters_def Let_def
        initial_globals_def split: option.splits sum.splits prod.splits)

lemma program_eq: "program x fl r = main (fst (init x fl initial_state)) r (snd (init x fl initial_state))"
  by (simp add: program_def case_prod_beta)

section \<open>Runs without credentials\<close>

lemma program_without_tenant:
  assumes "Getenv x azureEnvVarNameTenantID = []"
  shows "trace (program x fl r) = [] \<and>
    exitStatus (program x fl r) =
      (if flag_help fl then ExitSuccess else ExitAuthenticationFailure)"
proof (cases "flag_help fl")
  case True
  then show ?thesis
    using init_help [of fl x initial_state]
    by (simp add: program_eq main_def Let_def initial_state_def)
next
  case False
  then show ?thesis
    using init_no_tenant [OF assms, of fl initial_state]
    by (simp add: program_eq main_def Let_def initial_state_def Fprint_Stderr_def)
qed

lemma environment_without_tenant_empty:
  "Getenv (externals_with environment_without_tenant) azureEnvVarNameTenantID = []"
  by (simp add: externals_with_def environment_without_tenant_def)

text \<open>
  C8, as stated (without the tenant identifier the process exits with the
  authentication-failure code), fails when the help flag is given: \<^verbatim>\<open>init\<close> and \<^verbatim>\<open>main\<close>
  both return on \<^verbatim>\<open>help\<close> before they look at the credentials, and the exit code is
  the success code.
\<close>

theorem process_without_tenant_help_counterexample:
  "Getenv (externals_with environment_without_tenant) azureEnvVarNameTenantID = [] \<and>
   exitStatus (process (externals_with environment_without_tenant) (Accepted help_flags)
                 (remote_with []))
     \<noteq> ExitAuthenticationFailure"
  using program_without_tenant [OF environment_without_tenant_empty, of help_flags "remote_with []"]
  by (simp add: process_def environment_without_tenant_empty help_flags_def ExitSuccess_def
      ExitAuthenticationFailure_def)

text \<open>
  C8, amended, for every command line. When the tenant identifier is absent from the
  environment, the process has no effect on the remote (its trace is empty: no list,
  create or delete call). When \<^verbatim>\<open>flag.Parse\<close> accepts the command line, the process
  exits with the authentication-failure code, unless the help flag is given, in which
  case it exits with the success code; when \<^verbatim>\<open>flag.Parse\<close> rejects the command line,
  the process ends in that call, with the status \<^verbatim>\<open>flag.Parse\<close> exits with.
\<close>

theorem process_without_tenant:
  assumes "Getenv x azureEnvVarNameTenantID = []"
  shows "trace (process x cl r) = [] \<and>
    exitStatus (process x cl r) =
      (case cl of
         Rejected message status \<Rightarrow> status
       | Accepted fl \<Rightarrow> if flag_help fl then ExitSuccess else ExitAuthenticationFailure)"
proof (cases cl)
  case (Rejected message status)
  then show ?thesis
    by (simp add: process_def initial_state_def)
next
  case (Accepted fl)
  then show ?thesis
    using program_without_tenant [OF assms, of fl r]
    by (simp add: process_def)
qed

theorem process_without_tenant_witness:
  "Getenv (externals_with environment_without_tenant) azureEnvVarNameTenantID = [] \<and>
   trace (process (externals_with environment_without_tenant) (Accepted default_flags)
            (remote_with [])) = [] \<and>
   exitStatus (process (externals_with environment_without_tenant) (Accepted default_flags)
                 (remote_with []))
     = ExitAuthenticationFailure \<and>
   trace (process (externals_with environment_without_tenant) undefined_flag (remote_with [])) = [] \<and>
   exitStatus (process (externals_with environment_without_tenant) undefined_flag (remote_with []))
     = 2"
  using process_without_tenant [OF environment_without_tenant_empty,
      of "Accepted default_flags" "remote_with []"]
    process_without_tenant [OF environment_without_tenant_empty,
      of undefined_flag "remote_with []"]
  by (simp add: environment_without_tenant_empty default_flags_def undefined_flag_def)

section \<open>The run in which everything succeeds\<close>

lemma main_all_succeed:
  assumes "\<not> help g" "token g \<noteq> None" "output g = Some w" "all_succeed r"
  shows "exitStatus (main g r s) = ExitSuccess \<and>
    remote_calls (trace (main g r s)) = remote_calls (trace s) @ full_run r"
proof -
  from assms obtain t where "token g = Some t"
    by auto
  then show ?thesis
    using assms
    by (simp add: main_def Let_def all_succeed_def createResourceGroup_ok stage_defs andThen_def
        executeWithStatus_remote_call succeeded_answers succeeded_snd remote_call_apply ret_def
        waitBeforeCleanup_apply case_prod_beta remote_calls_append remote_calls_wait_effects
        full_run_def frontEnd_def backEnd_def)
qed

lemma program_run_all_succeed:
  assumes "well_formed_credentials x" "\<not> flag_help fl" "all_succeed r"
  shows "exitStatus (program x fl r) = ExitSuccess \<and>
      remote_calls (trace (program x fl r)) = full_run r"
  using init_well_formed [OF assms(1,2), of initial_state]
    main_all_succeed [of "fst (init x fl initial_state)" _ r initial_state, OF _ _ _ assms(3)]
  by (simp add: program_eq initial_state_def)

lemma remote_with_all_succeed: "all_succeed (remote_with names)"
  by (simp add: all_succeed_def remote_with_def resource_group_created_def succeeded_def
      status_is_success_def ok_outcome_def ok_response_def StatusOK_def)

lemma full_environment_well_formed: "well_formed_credentials (externals_with full_environment)"
  by code_simp

lemma default_flags_no_help: "\<not> flag_help default_flags"
  by (simp add: default_flags_def)

text \<open>
  C2, as stated (five security-rule creations), fails on the code: \<^verbatim>\<open>main\<close> creates four
  rules (ALLOW-SSH, ALLOW-HTTP, ALLOW-SQL, DENY-OUT). With well-formed credentials, the
  default command line and a remote on which every call succeeds, the run exits with the
  success code after four rule creations.
\<close>

theorem program_all_succeed_counterexample:
  "well_formed_credentials (externals_with full_environment) \<and>
   all_succeed (remote_with []) \<and>
   exitStatus (program (externals_with full_environment) default_flags (remote_with [])) = ExitSuccess \<and>
   count_calls is_rule_creation
     (program (externals_with full_environment) default_flags (remote_with [])) \<noteq> 5"
  using program_run_all_succeed [OF full_environment_well_formed default_flags_no_help
      remote_with_all_succeed, of "[]"]
  by (simp add: full_environment_well_formed remote_with_all_succeed count_calls_def full_run_def)

text \<open>
  C2, amended. When the credentials are well formed, the help flag is not given and
  every remote call succeeds, the process exits with the success code and its remote
  calls are, in this order: the listing, 1 resource-group creation, 1 virtual-network
  creation, 2 security-group creations (each followed by the \<^verbatim>\<open>Get\<close> of the group),
  2 subnet creations, 4 security-rule creations and 1 resource-group deletion.
\<close>

theorem program_all_succeed:
  assumes "well_formed_credentials x" "\<not> flag_help fl" "all_succeed r"
  shows "exitStatus (program x fl r) = ExitSuccess \<and>
    remote_calls (trace (program x fl r)) = full_run r \<and>
    count_calls is_group_creation (program x fl r) = 1 \<and>
    count_calls is_network_creation (program x fl r) = 1 \<and>
    count_calls is_security_group_creation (program x fl r) = 2 \<and>
    count_calls is_subnet_creation (program x fl r) = 2 \<and>
    count_calls is_rule_creation (program x fl r) = 4 \<and>
    count_calls is_group_deletion (program x fl r) = 1"
  using program_run_all_succeed [OF assms]
  by (simp add: count_calls_def full_run_def)

theorem program_all_succeed_witness:
  "exitStatus (program (externals_with full_environment) default_flags (remote_with gap_names))
     = ExitSuccess \<and>
   remote_calls (trace (program (externals_with full_environment) default_flags (remote_with gap_names)))
     = full_run (remote_with gap_names) \<and>
   count_calls is_rule_creation
     (program (externals_with full_environment) default_flags (remote_with gap_names)) = 4"
  using program_all_succeed [OF full_environment_well_formed default_flags_no_help
      remote_with_all_succeed, of gap_names]
  by simp

section \<open>The run as a function of what the remote answers\<close>

lemmas stage_unfold = createVirtualNetwork_def createNetworkSecurityGroup_def createSubnet_def
  createSecurityRule_def andThen_def executeWithStatus_remote_call remote_call_apply ret_def
  waitBeforeCleanup_apply case_prod_beta setExitStatus_def

lemma createSecurityRules_exitStatus:
  assumes "output g = Some w"
  shows "exitStatus (snd (createSecurityRules g r n fe be s)) =
    (if answers (securityRules_CreateOrUpdate r n (Name fe) ''ALLOW-SSH'') \<and>
        snd (securityRules_CreateOrUpdate r n (Name fe) ''ALLOW-SSH'') \<noteq> None
     then ExitSecurityRuleCreationFailure else exitStatus s)"
  using assms
  by (simp add: createSecurityRules_def stage_unfold)

lemma createSecurityRules_effects:
  assumes "output g = Some w"
  shows "trace (snd (createSecurityRules g r n fe be s)) =
    trace s @ map Remote (rule_calls r n (Name fe) (Name be)) @
      (if rules_complete r n (Name fe) (Name be) then wait_effects g else [])"
  using assms
  by (simp add: createSecurityRules_def stage_unfold rule_calls_def rules_complete_def passes_def)

lemma provision_exitStatus:
  assumes "output g = Some w"
  shows "exitStatus (snd (provision g r n s)) =
    (case provision_failure r n of None \<Rightarrow> exitStatus s | Some st \<Rightarrow> exit_code_of (Some st))"
  using assms
  by (simp add: provision_def stage_unfold provision_failure_def createSecurityRules_exitStatus)

lemma provision_effects:
  assumes "output g = Some w"
  shows "trace (snd (provision g r n s)) = trace s @ provision_effects g r n"
  using assms
  by (simp add: provision_def stage_unfold provision_effects_def provision_calls_def
      provision_completes_def passes_def createSecurityRules_effects)

lemma deleteResourceGroup_effects:
  assumes "output g = Some w"
  shows "trace (snd (deleteResourceGroup g r n s)) = trace s @ [Remote (GroupsDelete n)] \<and>
    exitStatus (snd (deleteResourceGroup g r n s)) = exitStatus s"
  using assms
  by (simp add: deleteResourceGroup_def andThen_def executeWithStatus_remote_call
      case_prod_beta ret_def)

lemma createResourceGroup_not_created:
  assumes "output g = Some w" "\<not> resource_group_created r"
  shows "\<exists>res s'. createResourceGroup g r s = (res, s') \<and>
    trace s' = trace s @ map Remote (resource_group_calls r) \<and> exitStatus s' = exitStatus s \<and>
    (if answers (Response (fst (groups_List r)), snd (groups_List r))
     then \<exists>x e. res = Ok (x, Some e) else res = Panic)"
  using assms
  by (cases "groups_List r")
     (auto simp: createResourceGroup_def getUniqueResourceGroupName_def andThen_def
        remote_call_apply ret_def panic_def Fprint_Some Fprint_Stderr_def
        answers_def resource_group_created_def resource_group_calls_def status_is_success_def
        chosen_name_def split: option.splits)

lemma created_answers:
  "resource_group_created r \<Longrightarrow> answers (Response (fst (groups_List r)), snd (groups_List r))"
  by (auto simp: resource_group_created_def answers_def status_is_success_def split: option.splits)

lemma main_closed_form:
  assumes "output g = Some w"
  shows "exitStatus (main g r s) = exit_code_of (first_observed_failure g r) \<and>
    trace (main g r s) = trace s @ main_effects g r"
proof (cases "help g \<or> token g = None")
  case True
  then show ?thesis
    by (auto simp: main_def Let_def first_observed_failure_def main_effects_def Fprint_Stderr_def)
next
  case False
  then obtain t where t: "\<not> help g" "token g = Some t"
    by auto
  show ?thesis
  proof (cases "resource_group_created r")
    case True
    then show ?thesis
      using t assms created_answers [OF True]
      by (simp add: main_def Let_def createResourceGroup_ok [OF assms True]
          deleteResourceGroup_effects provision_exitStatus provision_effects
          first_observed_failure_def main_effects_def resource_group_calls_def
          resource_group_created_def split: option.splits)
  next
    case False
    from createResourceGroup_not_created [OF assms False, of "s\<lparr>exitStatus := ExitSuccess\<rparr>"]
    obtain res s' where c: "createResourceGroup g r (s\<lparr>exitStatus := ExitSuccess\<rparr>) = (res, s')"
      and tr: "trace s' = trace s @ map Remote (resource_group_calls r)"
      and ex: "exitStatus s' = ExitSuccess"
      and res: "if answers (Response (fst (groups_List r)), snd (groups_List r))
         then \<exists>x e. res = Ok (x, Some e) else res = Panic"
      by auto
    show ?thesis
      using t False c tr ex res
      by (auto simp: main_def Let_def first_observed_failure_def main_effects_def
          split: if_splits)
  qed
qed

lemma init_trace: "trace (snd (init x fl s)) = trace s"
  by (simp add: init_def Let_def case_prod_beta print_errs_def split: sum.splits option.splits)

lemma init_output:
  "help (fst (init x fl s)) \<or> output (fst (init x fl s)) = Some (if flag_quiet fl then Discard else Stdout)"
  by (simp add: init_def Let_def case_prod_beta validateParameters_frame initial_globals_def
      split: sum.splits option.splits)

lemma program_closed_form:
  "exitStatus (program x fl r) = exit_code_of (first_observed_failure (globals_after_init x fl) r) \<and>
   trace (program x fl r) = main_effects (globals_after_init x fl) r"
proof (cases "help (globals_after_init x fl)")
  case True
  then show ?thesis
    using init_trace [of x fl initial_state]
    by (simp add: program_eq globals_after_init_def main_def Let_def first_observed_failure_def
        main_effects_def) (simp add: initial_state_def)
next
  case False
  then have "output (globals_after_init x fl) = Some (if flag_quiet fl then Discard else Stdout)"
    using init_output [of x fl initial_state] by (simp add: globals_after_init_def)
  from main_closed_form [OF this, of r "snd (init x fl initial_state)"]
  show ?thesis
    using init_trace [of x fl initial_state]
    by (simp add: program_eq globals_after_init_def) (simp add: initial_state_def)
qed

lemma remote_calls_map_Remote: "remote_calls (map Remote cs) = cs"
  by (induction cs) simp_all

lemma deleted_groups_append: "deleted_groups (xs @ ys) = deleted_groups xs @ deleted_groups ys"
  by (induction xs rule: deleted_groups.induct) simp_all

lemma deleted_groups_rule_calls: "deleted_groups (rule_calls r n fe be) = []"
  by (simp add: rule_calls_def)

lemma deleted_groups_provision_calls: "deleted_groups (provision_calls r n) = []"
  by (simp add: provision_calls_def deleted_groups_rule_calls)

lemma deleted_groups_resource_group_calls: "deleted_groups (resource_group_calls r) = []"
  by (simp add: resource_group_calls_def)

lemma globals_after_init_well_formed:
  assumes "well_formed_credentials x" "\<not> flag_help fl"
  shows "\<not> help (globals_after_init x fl) \<and> token (globals_after_init x fl) \<noteq> None"
  using init_well_formed [OF assms, of initial_state]
  by (simp add: globals_after_init_def)

lemma exit_code_of_enumerated: "exit_code_of st \<in> set exit_codes"
  by (cases st rule: exit_code_of.cases) (simp_all add: exit_codes_def)

section \<open>Exit codes\<close>

text \<open>
  What holds of the exit code on every accepted command line: it is one of the seven
  codes; and when the credentials are well formed, the help flag is not given, the
  resource group is created and the creation of the virtual network returns an error,
  it is the code of the virtual-network creation failure, and the remote calls are the
  listing, 1 resource-group creation, the virtual-network creation and 1 resource-group
  deletion: no security group, subnet or rule is created.
\<close>

lemma program_exit_code_enumerated: "exitStatus (program x fl r) \<in> set exit_codes"
  using program_closed_form [of x fl r] by (simp add: exit_code_of_enumerated)

lemma network_creation_failure_run:
  assumes w: "well_formed_credentials x" and h: "\<not> flag_help fl"
    and c: "resource_group_created r"
    and v: "snd (virtualNetworks_CreateOrUpdate r (chosen_name r) networkName) \<noteq> None"
  shows "exitStatus (program x fl r) = ExitVirtualNetworkCreationFailure \<and>
    trace (program x fl r) =
      map Remote [GroupsList, GroupsCreateOrUpdate (chosen_name r),
                  VirtualNetworksCreateOrUpdate (chosen_name r) networkName,
                  GroupsDelete (chosen_name r)] \<and>
    count_calls is_group_creation (program x fl r) = 1 \<and>
    count_calls is_security_group_creation (program x fl r) = 0 \<and>
    count_calls is_subnet_creation (program x fl r) = 0 \<and>
    count_calls is_rule_creation (program x fl r) = 0 \<and>
    count_calls is_group_deletion (program x fl r) = 1"
proof -
  from v obtain e where e: "snd (virtualNetworks_CreateOrUpdate r (chosen_name r) networkName) = Some e"
    by auto
  from globals_after_init_well_formed [OF w h]
  obtain t where t: "\<not> help (globals_after_init x fl)" "token (globals_after_init x fl) = Some t"
    by auto
  have "exitStatus (program x fl r) = ExitVirtualNetworkCreationFailure \<and>
    trace (program x fl r) =
      map Remote [GroupsList, GroupsCreateOrUpdate (chosen_name r),
                  VirtualNetworksCreateOrUpdate (chosen_name r) networkName,
                  GroupsDelete (chosen_name r)]"
    using t c e created_answers [OF c] error_answers [OF e]
    by (simp add: program_closed_form first_observed_failure_def provision_failure_def
        main_effects_def provision_effects_def provision_calls_def provision_completes_def
        passes_def resource_group_calls_def resource_group_created_def)
  then show ?thesis
    by (simp add: count_calls_def remote_calls_map_Remote)
qed

lemma network_creation_failure_example:
  "exitStatus (program (externals_with full_environment) default_flags remote_failing_network)
     = ExitVirtualNetworkCreationFailure \<and>
   count_calls is_group_creation
     (program (externals_with full_environment) default_flags remote_failing_network) = 1 \<and>
   count_calls is_rule_creation
     (program (externals_with full_environment) default_flags remote_failing_network) = 0 \<and>
   count_calls is_group_deletion
     (program (externals_with full_environment) default_flags remote_failing_network) = 1"
proof -
  have c: "resource_group_created remote_failing_network"
    by (simp add: remote_failing_network_def remote_with_def resource_group_created_def
        status_is_success_def ok_response_def StatusOK_def)
  have v: "snd (virtualNetworks_CreateOrUpdate remote_failing_network
      (chosen_name remote_failing_network) networkName) \<noteq> None"
    by (simp add: remote_failing_network_def remote_with_def conflict_def)
  show ?thesis
    using network_creation_failure_run [OF full_environment_well_formed default_flags_no_help c v]
    by simp
qed

text \<open>
  C6 (the exit code is the code of the stage at which a failure is first observed)
  fails on the code. \<^verbatim>\<open>createNetworkSecurityGroup\<close> assigns \<^verbatim>\<open>err\<close> again with the
  result of \<^verbatim>\<open>client.Get\<close> and so drops the error of the creation, which the stages
  beside it return to \<^verbatim>\<open>main\<close>. With well-formed credentials, the default command line
  and a remote on which the creation of the front-end security group returns an error
  and every other call succeeds, the executor reports the failure, and the run goes on:
  it creates both subnets and the four rules and exits with the success code, not with
  the code of the security-group creation failure.
\<close>

theorem program_exits_success_after_failed_security_group_creation:
  "snd (securityGroups_CreateOrUpdate remote_failing_security_group
          (chosen_name remote_failing_security_group) ''frontend'') = Some ''conflict'' \<and>
   exitStatus (program (externals_with full_environment) default_flags
                 remote_failing_security_group) = ExitSuccess \<and>
   ExitSuccess \<noteq> ExitNetworkSecuritryGroupCreationFailure \<and>
   count_calls is_subnet_creation
     (program (externals_with full_environment) default_flags remote_failing_security_group) = 2 \<and>
   count_calls is_rule_creation
     (program (externals_with full_environment) default_flags remote_failing_security_group) = 4"
proof -
  let ?r = remote_failing_security_group
  let ?g = "globals_after_init (externals_with full_environment) default_flags"
  have c: "resource_group_created ?r"
    by (simp add: remote_failing_security_group_def remote_with_def resource_group_created_def
        status_is_success_def ok_response_def StatusOK_def)
  from globals_after_init_well_formed [OF full_environment_well_formed default_flags_no_help]
  obtain t where g: "\<not> help ?g" "token ?g = Some t"
    by auto
  have a: "answers (Response (fst (groups_List ?r)), snd (groups_List ?r))"
    using created_answers [OF c] .
  have p: "provision_failure ?r m = None" for m
    by (simp add: provision_failure_def remote_failing_security_group_def remote_with_def
        answers_def ok_outcome_def conflict_def)
  have calls: "provision_calls ?r m =
      [VirtualNetworksCreateOrUpdate m networkName,
       SecurityGroupsCreateOrUpdate m ''frontend'', SecurityGroupsGet m ''frontend'',
       SecurityGroupsCreateOrUpdate m ''backend'', SecurityGroupsGet m ''backend'',
       SubnetsCreateOrUpdate m networkName ''frontendSubnet'',
       SubnetsCreateOrUpdate m networkName ''backendSubnet'',
       SecurityRulesCreateOrUpdate m ''frontend'' ''ALLOW-SSH'',
       SecurityRulesCreateOrUpdate m ''frontend'' ''ALLOW-HTTP'',
       SecurityRulesCreateOrUpdate m ''backend'' ''ALLOW-SQL'',
       SecurityRulesCreateOrUpdate m ''backend'' ''DENY-OUT'']" for m
    by (simp add: provision_calls_def rule_calls_def passes_def
        remote_failing_security_group_def remote_with_def answers_def ok_outcome_def
        conflict_def)
  have "snd (securityGroups_CreateOrUpdate ?r (chosen_name ?r) ''frontend'') = Some ''conflict''"
    by (simp add: remote_failing_security_group_def remote_with_def conflict_def)
  moreover have "exitStatus (program (externals_with full_environment) default_flags ?r) = ExitSuccess"
    using g c a by (simp add: program_closed_form first_observed_failure_def p)
  moreover have "ExitSuccess \<noteq> ExitNetworkSecuritryGroupCreationFailure"
    by (simp add: ExitSuccess_def ExitNetworkSecuritryGroupCreationFailure_def)
  moreover have "count_calls is_subnet_creation
      (program (externals_with full_environment) default_flags ?r) = 2"
    and "count_calls is_rule_creation
      (program (externals_with full_environment) default_flags ?r) = 4"
    using g c
    by (simp_all add: count_calls_def program_closed_form main_effects_def provision_effects_def
        remote_calls_append remote_calls_map_Remote remote_calls_wait_effects calls
        resource_group_calls_def)
  ultimately show ?thesis
    by simp
qed

text \<open>
  \<^verbatim>\<open>main\<close> also tests the error only. An outcome with a status other than 200 and no
  error is narrated as \<^verbatim>\<open>FAILED\<close> by the executor, and the run goes on: here the
  creation of the virtual network answers 201, and the run creates the four rules and
  exits with the success code.
\<close>

lemma status_without_error_is_not_observed:
  "succeeded (virtualNetworks_CreateOrUpdate remote_network_201 n networkName) = False \<and>
   exitStatus (program (externals_with full_environment) default_flags remote_network_201)
     = ExitSuccess \<and>
   count_calls is_rule_creation
     (program (externals_with full_environment) default_flags remote_network_201) = 4"
proof -
  let ?r = remote_network_201
  let ?g = "globals_after_init (externals_with full_environment) default_flags"
  have c: "resource_group_created ?r"
    by (simp add: remote_network_201_def remote_with_def resource_group_created_def
        status_is_success_def ok_response_def StatusOK_def)
  from globals_after_init_well_formed [OF full_environment_well_formed default_flags_no_help]
  obtain t where g: "\<not> help ?g" "token ?g = Some t"
    by auto
  have a: "answers (Response (fst (groups_List ?r)), snd (groups_List ?r))"
    using created_answers [OF c] .
  have p: "provision_failure ?r m = None" for m
    by (simp add: provision_failure_def remote_network_201_def remote_with_def answers_def
        ok_outcome_def created_outcome_def)
  have calls: "filter is_rule_creation (provision_calls ?r m) =
      [SecurityRulesCreateOrUpdate m ''frontend'' ''ALLOW-SSH'',
       SecurityRulesCreateOrUpdate m ''frontend'' ''ALLOW-HTTP'',
       SecurityRulesCreateOrUpdate m ''backend'' ''ALLOW-SQL'',
       SecurityRulesCreateOrUpdate m ''backend'' ''DENY-OUT'']" for m
    by (simp add: provision_calls_def rule_calls_def passes_def remote_network_201_def
        remote_with_def answers_def ok_outcome_def created_outcome_def)
  have "succeeded (virtualNetworks_CreateOrUpdate ?r n networkName) = False"
    by (simp add: succeeded_def status_is_success_def remote_network_201_def remote_with_def
        created_outcome_def StatusOK_def)
  moreover have "exitStatus (program (externals_with full_environment) default_flags ?r) = ExitSuccess"
    using g c a by (simp add: program_closed_form first_observed_failure_def p)
  moreover have "count_calls is_rule_creation
      (program (externals_with full_environment) default_flags ?r) = 4"
    using g c
    by (simp add: count_calls_def program_closed_form main_effects_def provision_effects_def
        remote_calls_append remote_calls_map_Remote remote_calls_wait_effects calls
        resource_group_calls_def)
  ultimately show ?thesis
    by simp
qed

section \<open>The cleanup\<close>

text \<open>
  C3. For every environment, command line and remote: when the run does not reach the
  creation of the resource group (help flag, no token) or the creation fails, no
  deletion is issued; when the creation succeeds, the run deletes exactly that group,
  once, and the deletion is its last effect, whatever the later stages answer (each may
  pass, return an error, or end the run).
\<close>

theorem program_deletes_what_it_created:
  "(help (globals_after_init x fl) \<or> token (globals_after_init x fl) = None \<or>
    resource_group_created r = False \<longrightarrow>
      deleted_groups (remote_calls (trace (program x fl r))) = []) \<and>
   (help (globals_after_init x fl) = False \<and> token (globals_after_init x fl) \<noteq> None \<and>
    resource_group_created r \<longrightarrow>
      deleted_groups (remote_calls (trace (program x fl r))) = [chosen_name r] \<and>
      last (trace (program x fl r)) = Remote (GroupsDelete (chosen_name r)))"
proof -
  have effects: "trace (program x fl r) = main_effects (globals_after_init x fl) r"
    using program_closed_form [of x fl r] by simp
  show ?thesis
    by (auto simp: effects main_effects_def provision_effects_def remote_calls_append
        remote_calls_map_Remote remote_calls_wait_effects deleted_groups_append
        deleted_groups_provision_calls deleted_groups_resource_group_calls)
qed

lemma remote_failing_group_not_created: "\<not> resource_group_created remote_failing_group"
  by (simp add: remote_failing_group_def remote_with_def resource_group_created_def)

lemma remote_with_created: "resource_group_created (remote_with names)"
  using remote_with_all_succeed [of names] by (simp add: all_succeed_def)

theorem program_deletes_what_it_created_witness:
  "deleted_groups (remote_calls (trace
      (program (externals_with full_environment) default_flags remote_failing_group))) = [] \<and>
   deleted_groups (remote_calls (trace
      (program (externals_with full_environment) default_flags (remote_with gap_names))))
     = [chosen_name (remote_with gap_names)] \<and>
   last (trace (program (externals_with full_environment) default_flags (remote_with gap_names)))
     = Remote (GroupsDelete (chosen_name (remote_with gap_names)))"
  using program_deletes_what_it_created [of "externals_with full_environment" default_flags
      remote_failing_group]
    program_deletes_what_it_created [of "externals_with full_environment" default_flags
      "remote_with gap_names"]
    globals_after_init_well_formed [OF full_environment_well_formed default_flags_no_help]
  by (simp add: remote_failing_group_not_created remote_with_created)

section \<open>Security rules after the first\<close>









end
